theory Spec2Isabelle
  imports Complex_Main "HOL-Library.AList"
begin

section \<open>JavaScript numbers\<close>

text \<open>
  Every quantity of the plan view (times, durations, pixel offsets) is a JavaScript
  \<open>number\<close>. A number is either finite or one of the three special values that
  division produces: \<open>NaN\<close>, \<open>Infinity\<close> and \<open>-Infinity\<close>. Arithmetic on finite
  values is exact here (rounding, overflow and underflow of the 64-bit format are not
  represented), and the two zeros are one value \<open>Fin 0\<close>; what is kept is the part of
  the semantics the view depends on: a quotient by zero is \<open>NaN\<close> or infinite, \<open>NaN\<close>
  propagates through every operation and fails every comparison.
\<close>

datatype jsnum = Fin real | PInf | NInf | NaN

fun isFinite :: "jsnum \<Rightarrow> bool" where
  "isFinite (Fin x) = True"
| "isFinite PInf = False"
| "isFinite NInf = False"
| "isFinite NaN = False"

text \<open>Unary minus, used to write the sign rules of the product and the quotient.\<close>

fun jsneg :: "jsnum \<Rightarrow> jsnum" where
  "jsneg (Fin x) = Fin (- x)"
| "jsneg PInf = NInf"
| "jsneg NInf = PInf"
| "jsneg NaN = NaN"

text \<open>\<open>a + b\<close>: opposite infinities give \<open>NaN\<close>.\<close>

fun jsadd :: "jsnum \<Rightarrow> jsnum \<Rightarrow> jsnum" where
  "jsadd NaN b = NaN"
| "jsadd a NaN = NaN"
| "jsadd (Fin x) (Fin y) = Fin (x + y)"
| "jsadd (Fin x) PInf = PInf"
| "jsadd (Fin x) NInf = NInf"
| "jsadd PInf NInf = NaN"
| "jsadd PInf b = PInf"
| "jsadd NInf PInf = NaN"
| "jsadd NInf b = NInf"

text \<open>\<open>a - b\<close> is \<open>a + (-b)\<close>, so \<open>Infinity - Infinity\<close> is \<open>NaN\<close>.\<close>

definition jssub :: "jsnum \<Rightarrow> jsnum \<Rightarrow> jsnum" where
  "jssub a b = jsadd a (jsneg b)"

text \<open>The sign of a number: \<open>Some True\<close> for positive, \<open>Some False\<close> for negative,
  \<open>None\<close> for zero and \<open>NaN\<close>.\<close>

fun jssign :: "jsnum \<Rightarrow> bool option" where
  "jssign (Fin x) = (if 0 < x then Some True else if x < 0 then Some False else None)"
| "jssign PInf = Some True"
| "jssign NInf = Some False"
| "jssign NaN = None"

text \<open>\<open>a * b\<close>: an infinity times zero is \<open>NaN\<close>, otherwise an infinite product has
  the product of the signs.\<close>

fun jsmul :: "jsnum \<Rightarrow> jsnum \<Rightarrow> jsnum" where
  "jsmul NaN b = NaN"
| "jsmul a NaN = NaN"
| "jsmul (Fin x) (Fin y) = Fin (x * y)"
| "jsmul a b =
     (case (jssign a, jssign b) of
        (Some s, Some t) \<Rightarrow> (if s = t then PInf else NInf)
      | _ \<Rightarrow> NaN)"

text \<open>\<open>a / b\<close>: \<open>0 / 0\<close> and \<open>\<plusminus>Infinity / \<plusminus>Infinity\<close> are \<open>NaN\<close>; a non-zero
  number over zero is infinite with the sign of the numerator; a finite number over an
  infinity is zero.\<close>

fun jsdiv :: "jsnum \<Rightarrow> jsnum \<Rightarrow> jsnum" where
  "jsdiv NaN b = NaN"
| "jsdiv a NaN = NaN"
| "jsdiv (Fin x) (Fin y) =
     (if y = 0 then (if x = 0 then NaN else if 0 < x then PInf else NInf)
      else Fin (x / y))"
| "jsdiv (Fin x) b = Fin 0"
| "jsdiv a (Fin y) =
     (if 0 \<le> y then a else jsneg a)"
| "jsdiv a b = NaN"

text \<open>The comparisons \<open>a < b\<close>, \<open>a <= b\<close>, \<open>a >= b\<close> and \<open>a == b\<close>: each is false
  as soon as one side is \<open>NaN\<close>.\<close>

fun jslt :: "jsnum \<Rightarrow> jsnum \<Rightarrow> bool" where
  "jslt NaN b = False"
| "jslt a NaN = False"
| "jslt (Fin x) (Fin y) = (x < y)"
| "jslt a PInf = (a \<noteq> PInf)"
| "jslt NInf b = (b \<noteq> NInf)"
| "jslt a b = False"

fun jseq :: "jsnum \<Rightarrow> jsnum \<Rightarrow> bool" where
  "jseq NaN b = False"
| "jseq a NaN = False"
| "jseq a b = (a = b)"

definition jsle :: "jsnum \<Rightarrow> jsnum \<Rightarrow> bool" where
  "jsle a b = (jslt a b \<or> jseq a b)"

definition jsge :: "jsnum \<Rightarrow> jsnum \<Rightarrow> bool" where
  "jsge a b = jsle b a"

text \<open>\<open>Math.max(a, b)\<close>: \<open>NaN\<close> if either argument is, else the larger one.\<close>

fun jsmax :: "jsnum \<Rightarrow> jsnum \<Rightarrow> jsnum" where
  "jsmax NaN b = NaN"
| "jsmax a NaN = NaN"
| "jsmax a b = (if jslt a b then b else a)"

text \<open>The coercion of a possibly undefined operand of an arithmetic operator or a
  comparison: \<open>undefined\<close> becomes \<open>NaN\<close>.\<close>

fun toNumber :: "jsnum option \<Rightarrow> jsnum" where
  "toNumber None = NaN"
| "toNumber (Some x) = x"

text \<open>The nullish coalescing \<open>a ?? b\<close>.\<close>

fun nullish :: "'a option \<Rightarrow> 'a \<Rightarrow> 'a" where
  "nullish None b = b"
| "nullish (Some a) b = a"

section \<open>The plan, its steps and the view options\<close>

text \<open>
  \<open>Plan\<close>, \<open>PlanStep\<close>, \<open>PlanStepCommitment\<close>, \<open>HelpfulAction\<close>, \<open>HappeningType\<close> and
  \<open>DomainInfo\<close> are imported by the view from the planning library, which is not part
  of the sources. The view only reads them, through the getters and fields named below.
\<close>

text \<open>Modelled from the spec: the declaration of \<open>PlanStepCommitment\<close> is missing from
  the sources. The three values the view tests by name, and \<open>Unknown\<close> for any other
  value the field may hold.\<close>

datatype PlanStepCommitment = Committed | EndsInRelaxedPlan | StartsInRelaxedPlan | Unknown

text \<open>Modelled from the spec: the declaration of \<open>PlanStep\<close> is missing from the
  sources. Each field is the result of the getter (or the field) of that name; the
  start time and the duration are optional numbers, the end time is a number.\<close>

record PlanStep =
  getActionName :: string
  getObjects :: "string list"
  getStartTime :: "jsnum option"
  getDuration :: "jsnum option"
  getEndTime :: jsnum
  isDurative :: bool
  commitment :: PlanStepCommitment
  getIterations :: nat

text \<open>Modelled from the spec: the declarations of \<open>HappeningType\<close> and \<open>HelpfulAction\<close>
  are missing from the sources. \<open>OtherKind\<close> is any kind that is neither \<open>START\<close> nor
  \<open>END\<close>.\<close>

datatype HappeningType = START | END | OtherKind

record HelpfulAction =
  actionName :: string
  kind :: HappeningType

text \<open>Modelled from the spec: the declaration of \<open>DomainInfo\<close> is missing from the
  sources. The view reads the declared actions, each through \<open>getNameOrEmpty()\<close>, and the
  \<open>fileUri\<close> of the domain.\<close>

record Action =
  getNameOrEmpty :: string

record DomainInfo =
  getActions :: "Action list"
  fileUri :: string

text \<open>Modelled from the spec: the declaration of \<open>Plan\<close> is missing from the sources.\<close>

record Plan =
  steps :: "PlanStep list"
  now :: "jsnum option"
  makespan :: jsnum
  helpfulActions :: "HelpfulAction list option"
  domain :: "DomainInfo option"

text \<open>Modelled from the spec: \<open>Plan.hasHelpfulActions()\<close> is missing from the sources;
  it holds when any helpful action exists.\<close>

definition hasHelpfulActions :: "Plan \<Rightarrow> bool" where
  "hasHelpfulActions plan =
     (case helpfulActions plan of None \<Rightarrow> False | Some hs \<Rightarrow> hs \<noteq> [])"

text \<open>\<open>interface PlanViewOptions\<close>; the two optional flags are \<open>None\<close> when absent.\<close>

record PlanViewOptions =
  epsilon :: jsnum
  displayWidth :: jsnum
  disableSwimlanes :: "bool option"
  selfContained :: "bool option"

section \<open>Time to view coordinates\<close>

text \<open>\<open>toViewCoordinates(time, plan)\<close>:
  \<^verbatim>\<open>return (time ?? 0) / plan.makespan * this.options.displayWidth;\<close>\<close>

definition toViewCoordinates :: "PlanViewOptions \<Rightarrow> jsnum option \<Rightarrow> Plan \<Rightarrow> jsnum" where
  "toViewCoordinates options time plan =
     jsmul (jsdiv (nullish time (Fin 0)) (makespan plan)) (displayWidth options)"

text \<open>\<open>computeLeftOffset(step, plan)\<close>.\<close>

definition computeLeftOffset :: "PlanViewOptions \<Rightarrow> PlanStep \<Rightarrow> Plan \<Rightarrow> jsnum" where
  "computeLeftOffset options step plan = toViewCoordinates options (getStartTime step) plan"

section \<open>Plan head and relaxed plan\<close>

text \<open>\<open>computePlanHeadDuration(step, plan)\<close>: the chain of \<open>if\<close>s and the \<open>switch\<close> of
  the source, in their order. \<open>step.getStartTime()\<close> is an operand of \<open>>=\<close> and of
  \<open>-\<close>, hence coerced by \<open>toNumber\<close>.\<close>

definition computePlanHeadDuration :: "PlanViewOptions \<Rightarrow> PlanStep \<Rightarrow> Plan \<Rightarrow> jsnum" where
  "computePlanHeadDuration options step plan =
     (case now plan of
        None \<Rightarrow> nullish (getDuration step) (epsilon options)
      | Some planNow \<Rightarrow>
          if jslt (getEndTime step) planNow then
            (if commitment step = Committed
             then nullish (getDuration step) (epsilon options)
             else Fin 0)
          else if jsge (toNumber (getStartTime step)) planNow then Fin 0
          else
            (case commitment step of
               Committed \<Rightarrow> nullish (getDuration step) (epsilon options)
             | EndsInRelaxedPlan \<Rightarrow> Fin 0
             | StartsInRelaxedPlan \<Rightarrow> jssub planNow (toNumber (getStartTime step))
             | _ \<Rightarrow> Fin 0))"

text \<open>\<open>computeWidth(planHeadDuration, plan)\<close>:
  \<^verbatim>\<open>return Math.max(1, this.toViewCoordinates(planHeadDuration, plan));\<close>\<close>

definition computeWidth :: "PlanViewOptions \<Rightarrow> jsnum \<Rightarrow> Plan \<Rightarrow> jsnum" where
  "computeWidth options planHeadDuration plan =
     jsmax (Fin 1) (toViewCoordinates options (Some planHeadDuration) plan)"

text \<open>The local \<open>relaxedDuration\<close> of \<open>computeRelaxedWidth\<close>:
  \<^verbatim>\<open>(step.getDuration() ?? this.options.epsilon) - planHeadDuration\<close>\<close>

definition relaxedDuration :: "PlanViewOptions \<Rightarrow> jsnum \<Rightarrow> PlanStep \<Rightarrow> jsnum" where
  "relaxedDuration options planHeadDuration step =
     jssub (nullish (getDuration step) (epsilon options)) planHeadDuration"

text \<open>\<open>computeRelaxedWidth(planHeadDuration, step, plan)\<close>.\<close>

definition computeRelaxedWidth :: "PlanViewOptions \<Rightarrow> jsnum \<Rightarrow> PlanStep \<Rightarrow> Plan \<Rightarrow> jsnum" where
  "computeRelaxedWidth options planHeadDuration step plan =
     toViewCoordinates options (Some (relaxedDuration options planHeadDuration step)) plan"

text \<open>\<open>isPlanHeadStep(step, timeNow)\<close>.\<close>

definition isPlanHeadStep :: "PlanStep \<Rightarrow> jsnum option \<Rightarrow> bool" where
  "isPlanHeadStep step timeNow =
     (timeNow = None \<or> commitment step = Committed \<or> commitment step = EndsInRelaxedPlan)"

section \<open>The colour of an action\<close>

text \<open>\<open>String.prototype.toLowerCase\<close>, on the letters \<open>A\<close> to \<open>Z\<close>; a string is a list
  of 8-bit characters, and every other character is left as it is. This is the function
  of the source on names written in ASCII; cased letters outside ASCII are not
  represented.\<close>

definition toLowerCaseChar :: "char \<Rightarrow> char" where
  "toLowerCaseChar c =
     (if 65 \<le> (of_char c :: nat) \<and> (of_char c :: nat) \<le> 90
      then char_of ((of_char c :: nat) + 32) else c)"

definition toLowerCase :: "string \<Rightarrow> string" where
  "toLowerCase s = map toLowerCaseChar s"

text \<open>\<open>Array.prototype.findIndex\<close>: the index of the first element that satisfies the
  predicate, counted from \<open>k\<close>, and \<open>-1\<close> when there is none.\<close>

fun findIndexFrom :: "('a \<Rightarrow> bool) \<Rightarrow> int \<Rightarrow> 'a list \<Rightarrow> int" where
  "findIndexFrom p k [] = - 1"
| "findIndexFrom p k (x # xs) = (if p x then k else findIndexFrom p (k + 1) xs)"

definition findIndex :: "('a \<Rightarrow> bool) \<Rightarrow> 'a list \<Rightarrow> int" where
  "findIndex p xs = findIndexFrom p 0 xs"

text \<open>The field \<open>colors\<close> of the view.\<close>

definition colors :: "string list" where
  "colors = [''#ff0000'', ''#ff4000'', ''#ff8000'', ''#ffbf00'', ''#ffff00'', ''#bfff00'',
     ''#80ff00'', ''#40ff00'', ''#00ff00'', ''#00ff40'', ''#00ff80'', ''#00ffbf'',
     ''#00ffff'', ''#00bfff'', ''#0080ff'', ''#0040ff'', ''#0000ff'', ''#4000ff'',
     ''#8000ff'', ''#bf00ff'', ''#ff00ff'', ''#ff00bf'', ''#ff0080'', ''#ff0040'']"

text \<open>\<open>getActionColor(step, domain?)\<close>: \<open>actionIndex\<close> is undefined when the domain is.
  The index \<open>actionIndex * 7 % this.colors.length\<close> is within the palette, since the
  product is not negative.\<close>

definition getActionColor :: "PlanStep \<Rightarrow> DomainInfo option \<Rightarrow> string" where
  "getActionColor step domainInfo =
     (let actionIndex =
            map_option
              (\<lambda>d. findIndex
                 (\<lambda>action. toLowerCase (getNameOrEmpty action) = toLowerCase (getActionName step))
                 (getActions d))
              domainInfo
      in case actionIndex of
           None \<Rightarrow> ''gray''
         | Some i \<Rightarrow>
             if i < 0 then ''gray''
             else colors ! nat (i * 7 mod int (length colors)))"

text \<open>The local \<open>actionColor\<close> of \<open>renderGanttStep\<close>:
  \<^verbatim>\<open>plan.domain ? this.getActionColor(step, plan.domain) : 'gray'\<close>\<close>

definition actionColor :: "PlanStep \<Rightarrow> Plan \<Rightarrow> string" where
  "actionColor step plan =
     (case domain plan of None \<Rightarrow> ''gray'' | Some d \<Rightarrow> getActionColor step (Some d))"

section \<open>The document tree\<close>

text \<open>
  A string that the view builds is a list of pieces: literal text, a number converted to
  text by a template literal or by \<open>toString()\<close>, a number formatted by \<open>toFixed\<close>,
  \<open>JSON.stringify\<close> of an array of strings, and \<open>encodeURI\<close> of a text. The conversions
  are kept as constructors, so no number formatting is chosen here.
\<close>

datatype piece =
    Lit string
  | NumberToString jsnum
  | ToFixed jsnum nat
  | JSONStringify "string list"
  | EncodeURI "piece list"

type_synonym pieces = "piece list"

text \<open>
  A node of the document is a text node or an element. An element has a tag, the list of
  class names of its \<open>className\<close>, the properties and attributes assigned to it (\<open>id\<close>,
  \<open>title\<close>, \<open>href\<close>, \<open>innerText\<close>, \<open>innerHTML\<close>, \<open>onclick\<close>, the attribute \<open>plan\<close>),
  the properties assigned to its \<open>style\<close>, and its child nodes in document order.
  Assigning a property again replaces its value.
\<close>

datatype node =
    TextNode pieces
  | Element string "string list" "(string \<times> pieces) list" "(string \<times> pieces) list" "node list"

text \<open>\<open>document.createElement(tag)\<close> and \<open>document.createTextNode(data)\<close>.\<close>

definition createElement :: "string \<Rightarrow> node" where
  "createElement tag = Element tag [] [] [] []"

definition createTextNode :: "pieces \<Rightarrow> node" where
  "createTextNode t = TextNode t"

fun childNodes :: "node \<Rightarrow> node list" where
  "childNodes (TextNode t) = []"
| "childNodes (Element tag cls props sty cs) = cs"

fun classList :: "node \<Rightarrow> string list" where
  "classList (TextNode t) = []"
| "classList (Element tag cls props sty cs) = cls"

text \<open>The properties assigned to the \<open>style\<close> of an element.\<close>

fun styleOf :: "node \<Rightarrow> (string \<times> pieces) list" where
  "styleOf (TextNode t) = []"
| "styleOf (Element tag cls props sty cs) = sty"

text \<open>\<open>e.className = ...\<close>, given as the class names of the assigned string.\<close>

fun setClassName :: "string list \<Rightarrow> node \<Rightarrow> node" where
  "setClassName names (TextNode t) = TextNode t"
| "setClassName names (Element tag cls props sty cs) = Element tag names props sty cs"

text \<open>\<open>e.name = value\<close> and \<open>e.setAttribute(name, value)\<close>.\<close>

fun setProperty :: "string \<Rightarrow> pieces \<Rightarrow> node \<Rightarrow> node" where
  "setProperty name v (TextNode t) = TextNode t"
| "setProperty name v (Element tag cls props sty cs) =
     Element tag cls (AList.update name v props) sty cs"

text \<open>\<open>e.style.name = value\<close>.\<close>

fun setStyle :: "string \<Rightarrow> pieces \<Rightarrow> node \<Rightarrow> node" where
  "setStyle name v (TextNode t) = TextNode t"
| "setStyle name v (Element tag cls props sty cs) =
     Element tag cls props (AList.update name v sty) cs"

text \<open>\<open>parent.appendChild(child)\<close> and \<open>parent.append(child, ...)\<close>: the new children
  go after the present ones.\<close>

fun appendNodes :: "node \<Rightarrow> node list \<Rightarrow> node" where
  "appendNodes (TextNode t) new = TextNode t"
| "appendNodes (Element tag cls props sty cs) new = Element tag cls props sty (cs @ new)"

definition appendChild :: "node \<Rightarrow> node \<Rightarrow> node" where
  "appendChild parent child = appendNodes parent [child]"

text \<open>\<open>host.querySelector('.' + className)\<close>: the first descendant, in document order,
  that is an element with the class name.\<close>

fun querySelector :: "string \<Rightarrow> node list \<Rightarrow> node option" where
  "querySelector c [] = None"
| "querySelector c (TextNode t # ns) = querySelector c ns"
| "querySelector c (Element tag cls props sty cs # ns) =
     (if c \<in> set cls then Some (Element tag cls props sty cs)
      else case querySelector c cs of
             Some found \<Rightarrow> Some found
           | None \<Rightarrow> querySelector c ns)"

text \<open>The element that \<open>querySelector\<close> returns is a reference into the tree, and the
  view changes the element through it. \<open>updateSelected c f ns\<close> is the tree after the
  change \<open>f\<close> of the element that \<open>querySelector c ns\<close> finds.\<close>

fun updateSelected :: "string \<Rightarrow> (node \<Rightarrow> node) \<Rightarrow> node list \<Rightarrow> node list" where
  "updateSelected c f [] = []"
| "updateSelected c f (TextNode t # ns) = TextNode t # updateSelected c f ns"
| "updateSelected c f (Element tag cls props sty cs # ns) =
     (if c \<in> set cls then f (Element tag cls props sty cs) # ns
      else if querySelector c cs \<noteq> None
        then Element tag cls props sty (updateSelected c f cs) # ns
      else Element tag cls props sty cs # updateSelected c f ns)"

section \<open>Rendering\<close>

text \<open>\<open>px(valueInPx)\<close>: \<^verbatim>\<open>`${valueInPx}px`\<close>.\<close>

definition px :: "jsnum \<Rightarrow> pieces" where
  "px valueInPx = [NumberToString valueInPx, Lit ''px'']"

text \<open>\<open>Array.prototype.join\<close>.\<close>

fun join :: "string \<Rightarrow> string list \<Rightarrow> string" where
  "join sep [] = []"
| "join sep [x] = x"
| "join sep (x # y # ys) = x @ sep @ join sep (y # ys)"

definition DIGITS :: nat where
  "DIGITS = 4"

definition planStepHeight :: jsnum where
  "planStepHeight = Fin 20"

text \<open>\<open>toActionTooltipPlain(step)\<close>.\<close>

definition toActionTooltipPlain :: "PlanStep \<Rightarrow> pieces" where
  "toActionTooltipPlain step =
     (let durationRow =
            (case getDuration step of
               Some d \<Rightarrow>
                 if isDurative step
                 then [Lit ''Duration: '', ToFixed d DIGITS, Lit '', End: '',
                       ToFixed (getEndTime step) DIGITS]
                 else []
             | None \<Rightarrow> []);
          startTime =
            (case getStartTime step of
               Some t \<Rightarrow> [Lit '', Start: '', ToFixed t DIGITS]
             | None \<Rightarrow> [])
      in [Lit (getActionName step @ '' '' @ join '' '' (getObjects step))]
           @ startTime @ [Lit '' ''] @ durationRow)"

text \<open>\<open>toActionLink(actionName, plan)\<close>. The two double-quoted strings of the source
  that contain \<open>${...}\<close> are not template literals and are assigned as they stand.\<close>

definition toActionLink :: "PlanViewOptions \<Rightarrow> string \<Rightarrow> Plan \<Rightarrow> node" where
  "toActionLink options name plan =
     (case domain plan of
        None \<Rightarrow> createTextNode [Lit name]
      | Some d \<Rightarrow>
          if selfContained options = Some True then createTextNode [Lit name]
          else
            (let revealActionUri =
                   [EncodeURI [Lit ''command:pddl.revealAction?'',
                               JSONStringify [fileUri d, name]]];
                 a = createElement ''a'';
                 a = setProperty ''href'' revealActionUri a;
                 a = setProperty ''title''
                       [Lit ''Reveal '', Lit [CHR 0x27], Lit ''${actionName}'', Lit [CHR 0x27],
                        Lit '' action in the domain file''] a;
                 a = setProperty ''innerText'' [Lit name] a
             in a))"

text \<open>\<open>renderGanttStep(ganttDiv, step, index, plan)\<close>; the result is \<open>ganttDiv\<close> after
  the call.\<close>

definition renderGanttStep ::
    "PlanViewOptions \<Rightarrow> node \<Rightarrow> PlanStep \<Rightarrow> nat \<Rightarrow> Plan \<Rightarrow> node" where
  "renderGanttStep options ganttDiv step index plan =
     (let fromTop = jsmul (Fin (real index)) planStepHeight;
          fromLeft = computeLeftOffset options step plan;
          planHeadDuration = computePlanHeadDuration options step plan;
          width = computeWidth options planHeadDuration plan;
          widthRelaxed = computeRelaxedWidth options planHeadDuration step plan;
          actionColor = actionColor step plan;
          actionIterations =
            (if getIterations step > 1
             then [NumberToString (Fin (real (getIterations step))), Lit ''x'']
             else []);
          planStep = createElement ''div'';
          planStep = setProperty ''id'' [Lit ''plan${planIndex}step${index}''] planStep;
          planStep = setClassName [''planstep''] planStep;
          planStep = setStyle ''left'' (px fromLeft) planStep;
          planStep = setStyle ''top'' (px fromTop) planStep;
          planStepBar = createElement ''div'';
          planStepBar = setClassName [''planstep-bar''] planStepBar;
          planStepBar = setProperty ''title'' (toActionTooltipPlain step) planStepBar;
          planStepBar = setStyle ''width'' (px width) planStepBar;
          planStepBar = setStyle ''backgroundColor'' [Lit actionColor] planStepBar;
          planStepBarRelaxed = createElement ''div'';
          planStepBarRelaxed =
            setClassName [''planstep-bar-relaxed'', ''whitecarbon''] planStepBarRelaxed;
          planStepBarRelaxed = setStyle ''width'' (px widthRelaxed) planStepBarRelaxed;
          actionLink = toActionLink options (getActionName step) plan;
          textNode = createTextNode
                   ([Lit ('' '' @ join '' '' (getObjects step) @ '' '')] @ actionIterations);
          planStep = appendNodes planStep [planStepBar, planStepBarRelaxed, actionLink, textNode]
      in appendChild ganttDiv planStep)"

text \<open>\<open>steps.map((step, stepIndex) => this.renderGanttStep(ganttDiv, step, stepIndex + offset, plan))\<close>:
  the steps are rendered in order, each into the \<open>ganttDiv\<close> the previous one left.\<close>

fun renderGanttSteps ::
    "PlanViewOptions \<Rightarrow> node \<Rightarrow> PlanStep list \<Rightarrow> nat \<Rightarrow> Plan \<Rightarrow> node" where
  "renderGanttSteps options ganttDiv [] index plan = ganttDiv"
| "renderGanttSteps options ganttDiv (step # rest) index plan =
     renderGanttSteps options (renderGanttStep options ganttDiv step index plan)
       rest (index + 1) plan"

text \<open>\<open>getActionSuffix(helpfulAction)\<close>; the two box-drawing characters are given by
  their UTF-8 bytes.\<close>

definition getActionSuffix :: "HelpfulAction \<Rightarrow> string" where
  "getActionSuffix helpfulAction =
     (case kind helpfulAction of
        START \<Rightarrow> [CHR 0xE2, CHR 0x94, CHR 0x9C]
      | END \<Rightarrow> [CHR 0xE2, CHR 0x94, CHR 0xA4]
      | _ \<Rightarrow> [])"

text \<open>\<open>renderHelpfulAction(helpfulActions, index, helpfulAction)\<close>; the result is the
  element passed as \<open>helpfulActions\<close> after the call. The handler assigned to \<open>onclick\<close>
  calls \<open>onHelpfulActionSelected\<close> with the action name, which is what is recorded.\<close>

definition renderHelpfulAction :: "node \<Rightarrow> nat \<Rightarrow> HelpfulAction \<Rightarrow> node" where
  "renderHelpfulAction helpfulActionsDiv index helpfulAction =
     (let suffix = getActionSuffix helpfulAction;
          beautifiedName =
            [Lit (actionName helpfulAction @ ''<sub>'' @ suffix @ ''</sub>'')];
          helpfulActionsDiv =
            appendChild helpfulActionsDiv
              (createTextNode [NumberToString (Fin (real (index + 1))), Lit ''. '']);
          a = createElement ''a'';
          a = setProperty ''href'' [Lit ''#''] a;
          a = setProperty ''onclick'' [Lit (actionName helpfulAction)] a;
          a = setProperty ''innerHTML'' beautifiedName a
      in appendChild helpfulActionsDiv a)"

text \<open>\<open>plan.helpfulActions?.forEach((helpfulAction, index) => ...)\<close>.\<close>

fun renderEachHelpfulAction :: "node \<Rightarrow> nat \<Rightarrow> HelpfulAction list \<Rightarrow> node" where
  "renderEachHelpfulAction target index [] = target"
| "renderEachHelpfulAction target index (helpfulAction # rest) =
     renderEachHelpfulAction (renderHelpfulAction target index helpfulAction) (index + 1) rest"

text \<open>\<open>renderHelpfulActions(ganttDiv, plan, planHeadLength)\<close>. The source passes
  \<open>ganttDiv\<close>, not the new \<open>helpfulActions\<close> element, to \<open>renderHelpfulAction\<close>: the
  numbered links become children of \<open>ganttDiv\<close>, followed by the element that holds the
  arrow (given by its UTF-8 bytes and a space).\<close>

definition renderHelpfulActions :: "PlanViewOptions \<Rightarrow> node \<Rightarrow> Plan \<Rightarrow> nat \<Rightarrow> node" where
  "renderHelpfulActions options ganttDiv plan planHeadLength =
     (if hasHelpfulActions plan then
        (let fromTop = jsmul (Fin (real planHeadLength)) planStepHeight;
             fromLeft = toViewCoordinates options (now plan) plan;
             helpfulActionsDiv = createElement ''div'';
             helpfulActionsDiv = setClassName [''planstep''] helpfulActionsDiv;
             helpfulActionsDiv = setStyle ''top'' (px fromTop) helpfulActionsDiv;
             helpfulActionsDiv = setStyle ''left'' (px fromLeft) helpfulActionsDiv;
             helpfulActionsDiv = setStyle ''marginTop'' (px (Fin 3)) helpfulActionsDiv;
             arrow = createTextNode [Lit [CHR 0xE2, CHR 0x96, CHR 0xB6, CHR 0x20]];
             helpfulActionsDiv = appendChild helpfulActionsDiv arrow;
             ganttDiv =
               (case helpfulActions plan of
                  None \<Rightarrow> ganttDiv
                | Some hs \<Rightarrow> renderEachHelpfulAction ganttDiv 0 hs)
         in appendChild ganttDiv helpfulActionsDiv)
      else ganttDiv)"

text \<open>\<open>showGantt(ganttDiv, plan, stepsToDisplay, planIndex)\<close>; the result is \<open>ganttDiv\<close>
  after the call.\<close>

definition showGantt ::
    "PlanViewOptions \<Rightarrow> node \<Rightarrow> Plan \<Rightarrow> PlanStep list \<Rightarrow> jsnum \<Rightarrow> node" where
  "showGantt options ganttDiv plan stepsToDisplay planIndex =
     (let planHeadSteps = filter (\<lambda>step. isPlanHeadStep step (now plan)) stepsToDisplay;
          relaxedPlanSteps = filter (\<lambda>step. \<not> isPlanHeadStep step (now plan)) stepsToDisplay;
          oneIfHelpfulActionsPresent = (if hasHelpfulActions plan then 1 else 0);
          relaxedPlanStepIndexOffset = length planHeadSteps + oneIfHelpfulActionsPresent;
          ganttChartHeight =
            jsmul (Fin (real (length stepsToDisplay + oneIfHelpfulActionsPresent)))
              planStepHeight;
          ganttDiv = setProperty ''plan'' [NumberToString planIndex] ganttDiv;
          ganttDiv = setStyle ''height'' (px ganttChartHeight) ganttDiv;
          ganttDiv = renderGanttSteps options ganttDiv planHeadSteps 0 plan;
          ganttDiv = renderHelpfulActions options ganttDiv plan (length planHeadSteps)
      in renderGanttSteps options ganttDiv relaxedPlanSteps relaxedPlanStepIndexOffset plan)"

text \<open>\<open>interface PlanReportSettings\<close>: its one method \<open>shouldDisplay\<close>.\<close>

type_synonym PlanReportSettings = "PlanStep \<Rightarrow> bool"

text \<open>\<open>shouldDisplay(planStep, settings?)\<close>:
  \<^verbatim>\<open>settings?.shouldDisplay(planStep) ?? true\<close>.\<close>

definition shouldDisplay :: "PlanStep \<Rightarrow> PlanReportSettings option \<Rightarrow> bool" where
  "shouldDisplay planStep settings =
     (case settings of None \<Rightarrow> True | Some s \<Rightarrow> s planStep)"

text \<open>\<open>createSubElement(className)\<close> on the children of the host: the new child, and
  the children after it is appended.\<close>

definition createSubElement :: "string \<Rightarrow> node list \<Rightarrow> node \<times> node list" where
  "createSubElement className host =
     (let child = createElement ''div'';
          child = setClassName [className] child
      in (child, host @ [child]))"

text \<open>\<open>showPlan(plan, planIndex, settings?)\<close>. The state of the view is the list of the
  child nodes of its \<open>host\<close>; the result is that list after the call. \<open>capitalize\<close> is
  imported from \<open>planCapitalization\<close>, which is not among the sources, and is a parameter
  here. When no element of class \<open>gantt\<close> is found, the new one is the last child of
  the host, and \<open>showGantt\<close> changes it there. The three \<open>console.dir\<close> calls leave the
  document as it is.\<close>

definition showPlan ::
    "PlanViewOptions \<Rightarrow> (Plan \<Rightarrow> Plan) \<Rightarrow> node list \<Rightarrow> Plan \<Rightarrow> jsnum
      \<Rightarrow> PlanReportSettings option \<Rightarrow> node list" where
  "showPlan options capitalize host plan planIndex settings =
     (let plan = capitalize plan;
          stepsToDisplay = filter (\<lambda>step. shouldDisplay step settings) (steps plan)
      in case querySelector ''gantt'' host of
           Some ganttDiv \<Rightarrow>
             updateSelected ''gantt''
               (\<lambda>ganttDiv. showGantt options ganttDiv plan stepsToDisplay planIndex) host
         | None \<Rightarrow>
             (let (ganttDiv, host) = createSubElement ''gantt'' host
              in butlast host @ [showGantt options ganttDiv plan stepsToDisplay planIndex]))"

text \<open>The nodes that one call of \<open>showGantt\<close> appends: the children it gives to an
  element that has none.\<close>

definition renderedNodes ::
    "PlanViewOptions \<Rightarrow> Plan \<Rightarrow> PlanStep list \<Rightarrow> jsnum \<Rightarrow> node list" where
  "renderedNodes options plan stepsToDisplay planIndex =
     childNodes (showGantt options (createElement ''div'') plan stepsToDisplay planIndex)"

text \<open>The \<open>backgroundColor\<close> of the bar of a rendered step: \<open>renderGanttStep\<close> gives
  an element without children one child, the \<open>planstep\<close> element, whose first child is
  the \<open>planstep-bar\<close>; the value is \<open>None\<close> if the rendering has another shape or
  the bar has no such style.\<close>

definition renderedBarColor ::
    "PlanViewOptions \<Rightarrow> PlanStep \<Rightarrow> nat \<Rightarrow> Plan \<Rightarrow> pieces option" where
  "renderedBarColor options step index plan =
     (case childNodes (renderGanttStep options (createElement ''div'') step index plan) of
        [planStep] \<Rightarrow>
          (case childNodes planStep of
             bar # others \<Rightarrow>
               if classList planStep = [''planstep''] \<and> classList bar = [''planstep-bar'']
               then map_of (styleOf bar) ''backgroundColor''
               else None
           | [] \<Rightarrow> None)
      | _ \<Rightarrow> None)"

section \<open>Example inputs\<close>

text \<open>The options of the demo page:
  \<^verbatim>\<open>const EPSILON = 1e-3;\<close> and
  \<^verbatim>\<open>{ disableSwimlanes: false, displayWidth: 300, epsilon: EPSILON }\<close>.\<close>

definition EPSILON :: jsnum where
  "EPSILON = Fin (1 / 1000)"

definition demoOptions :: PlanViewOptions where
  "demoOptions = \<lparr>epsilon = EPSILON, displayWidth = Fin 300,
     disableSwimlanes = Some False, selfContained = None\<rparr>"

text \<open>A step \<open>move a b\<close> with the given start time, duration, end time and
  commitment, and a plan with the given steps, \<open>now\<close> and makespan; they are the inputs
  at which the theorems below are evaluated.\<close>

definition exampleStep :: "jsnum option \<Rightarrow> jsnum option \<Rightarrow> jsnum \<Rightarrow> PlanStepCommitment \<Rightarrow> PlanStep" where
  "exampleStep start dur end c =
     \<lparr>getActionName = ''move'', getObjects = [''a'', ''b''], getStartTime = start,
      getDuration = dur, getEndTime = end, isDurative = True, commitment = c,
      getIterations = 1\<rparr>"

definition examplePlan :: "PlanStep list \<Rightarrow> jsnum option \<Rightarrow> jsnum \<Rightarrow> Plan" where
  "examplePlan ss n m =
     \<lparr>steps = ss, now = n, makespan = m, helpfulActions = None, domain = None\<rparr>"

text \<open>A domain that declares actions of the given names, in their order.\<close>

definition exampleDomain :: "string list \<Rightarrow> DomainInfo" where
  "exampleDomain names =
     \<lparr>getActions = map (\<lambda>n. \<lparr>getNameOrEmpty = n\<rparr>) names,
      fileUri = ''file:///domain.pddl''\<rparr>"

section \<open>Facts about the number operations\<close>

lemmas ex_defs = EPSILON_def demoOptions_def exampleStep_def examplePlan_def
  exampleDomain_def

lemma jssub_Fin [simp]: "jssub (Fin x) (Fin y) = Fin (x - y)"
  by (simp add: jssub_def)

lemma jsle_Fin [simp]: "jsle (Fin x) (Fin y) = (x \<le> y)"
  by (auto simp: jsle_def)

lemma jsge_Fin [simp]: "jsge (Fin x) (Fin y) = (y \<le> x)"
  by (simp add: jsge_def)

lemma isFinite_iff: "isFinite a = (\<exists>x. a = Fin x)"
  by (cases a) simp_all

lemma jsdiv_zero_not_finite: "\<not> isFinite (jsdiv a (Fin 0))"
  by (cases a) simp_all

lemma jsmul_not_finite: "\<not> isFinite a \<Longrightarrow> \<not> isFinite (jsmul a b)"
  by (cases a; cases b) (simp_all split: option.splits)


lemma jsmax_one_ge: "b \<noteq> NaN \<Longrightarrow> jsge (jsmax (Fin 1) b) (Fin 1)"
  by (cases b) (simp_all add: jsge_def jsle_def)

section \<open>The committed duration\<close>

text \<open>
  C1. \<open>computePlanHeadDuration(step, plan)\<close> follows the dispatch of the specification:
  with \<open>plan.now\<close> undefined it returns the duration (\<open>epsilon\<close> when the duration is
  undefined); else, if the end time is less than \<open>now\<close>, the full duration (or
  \<open>epsilon\<close>) for a \<open>Committed\<close> step and 0 otherwise; else, if the start time is at
  least \<open>now\<close>, 0; else the full duration (or \<open>epsilon\<close>) for \<open>Committed\<close>, 0 for
  \<open>EndsInRelaxedPlan\<close>, \<open>now - startTime\<close> for \<open>StartsInRelaxedPlan\<close> and 0 for any
  other commitment.
\<close>

theorem computePlanHeadDuration_dispatch:
  "(now plan = None \<longrightarrow>
      computePlanHeadDuration options step plan = nullish (getDuration step) (epsilon options)) \<and>
   (\<forall>n. now plan = Some n \<and> jslt (getEndTime step) n \<longrightarrow>
      computePlanHeadDuration options step plan =
        (if commitment step = Committed then nullish (getDuration step) (epsilon options)
         else Fin 0)) \<and>
   (\<forall>n. now plan = Some n \<and> \<not> jslt (getEndTime step) n
        \<and> jsge (toNumber (getStartTime step)) n \<longrightarrow>
      computePlanHeadDuration options step plan = Fin 0) \<and>
   (\<forall>n. now plan = Some n \<and> \<not> jslt (getEndTime step) n
        \<and> \<not> jsge (toNumber (getStartTime step)) n \<longrightarrow>
      (commitment step = Committed \<longrightarrow>
         computePlanHeadDuration options step plan
           = nullish (getDuration step) (epsilon options)) \<and>
      (commitment step = EndsInRelaxedPlan \<longrightarrow>
         computePlanHeadDuration options step plan = Fin 0) \<and>
      (commitment step = StartsInRelaxedPlan \<longrightarrow>
         computePlanHeadDuration options step plan
           = jssub n (toNumber (getStartTime step))) \<and>
      (commitment step \<notin> {Committed, EndsInRelaxedPlan, StartsInRelaxedPlan} \<longrightarrow>
         computePlanHeadDuration options step plan = Fin 0))"
  by (cases "commitment step") (simp_all add: computePlanHeadDuration_def)

text \<open>The scenario of the specification (start 2, now 5, end 8, start in the relaxed
  plan) commits 3; a durationless step of a static plan commits \<open>epsilon\<close>; a step in the
  past commits its duration only when \<open>Committed\<close>; a step in the future commits 0.\<close>

theorem computePlanHeadDuration_dispatch_witness:
  "computePlanHeadDuration demoOptions
      (exampleStep (Some (Fin 2)) (Some (Fin 6)) (Fin 8) StartsInRelaxedPlan)
      (examplePlan [] (Some (Fin 5)) (Fin 10)) = Fin 3
   \<and> computePlanHeadDuration demoOptions
      (exampleStep (Some (Fin 2)) None (Fin 2) StartsInRelaxedPlan)
      (examplePlan [] None (Fin 10)) = EPSILON
   \<and> computePlanHeadDuration demoOptions
      (exampleStep (Some (Fin 1)) (Some (Fin 2)) (Fin 3) Committed)
      (examplePlan [] (Some (Fin 5)) (Fin 10)) = Fin 2
   \<and> computePlanHeadDuration demoOptions
      (exampleStep (Some (Fin 1)) (Some (Fin 2)) (Fin 3) EndsInRelaxedPlan)
      (examplePlan [] (Some (Fin 5)) (Fin 10)) = Fin 0
   \<and> computePlanHeadDuration demoOptions
      (exampleStep (Some (Fin 6)) (Some (Fin 2)) (Fin 8) Committed)
      (examplePlan [] (Some (Fin 5)) (Fin 10)) = Fin 0
   \<and> computePlanHeadDuration demoOptions
      (exampleStep (Some (Fin 2)) (Some (Fin 6)) (Fin 8) Unknown)
      (examplePlan [] (Some (Fin 5)) (Fin 10)) = Fin 0"
  using
    computePlanHeadDuration_dispatch [of "examplePlan [] (Some (Fin 5)) (Fin 10)" demoOptions
      "exampleStep (Some (Fin 2)) (Some (Fin 6)) (Fin 8) StartsInRelaxedPlan"]
    computePlanHeadDuration_dispatch [of "examplePlan [] None (Fin 10)" demoOptions
      "exampleStep (Some (Fin 2)) None (Fin 2) StartsInRelaxedPlan"]
    computePlanHeadDuration_dispatch [of "examplePlan [] (Some (Fin 5)) (Fin 10)" demoOptions
      "exampleStep (Some (Fin 1)) (Some (Fin 2)) (Fin 3) Committed"]
    computePlanHeadDuration_dispatch [of "examplePlan [] (Some (Fin 5)) (Fin 10)" demoOptions
      "exampleStep (Some (Fin 1)) (Some (Fin 2)) (Fin 3) EndsInRelaxedPlan"]
    computePlanHeadDuration_dispatch [of "examplePlan [] (Some (Fin 5)) (Fin 10)" demoOptions
      "exampleStep (Some (Fin 6)) (Some (Fin 2)) (Fin 8) Committed"]
    computePlanHeadDuration_dispatch [of "examplePlan [] (Some (Fin 5)) (Fin 10)" demoOptions
      "exampleStep (Some (Fin 2)) (Some (Fin 6)) (Fin 8) Unknown"]
  by (simp add: ex_defs)

section \<open>Committed and relaxed duration together\<close>




section \<open>The relaxed duration is not negative\<close>




section \<open>Time to pixels\<close>

text \<open>A plan of makespan 0: the undefined time maps to \<open>0 / 0 * 300\<close>, which is \<open>NaN\<close>,
  and the time 5 to \<open>Infinity\<close>.\<close>

theorem toViewCoordinates_zero_makespan_counterexample:
  "toViewCoordinates demoOptions None (examplePlan [] None (Fin 0)) = NaN
   \<and> toViewCoordinates demoOptions (Some (Fin 5)) (examplePlan [] None (Fin 0)) = PInf"
  by (simp add: ex_defs toViewCoordinates_def)

text \<open>
  C3 (amended). \<open>toViewCoordinates\<close> is the quotient and product
  \<open>(time ?? 0) / makespan * displayWidth\<close> with no guard on the makespan. For a makespan
  of 0 its result is never finite: it is \<open>NaN\<close> when \<open>time ?? 0\<close> is 0, and an infinity
  when \<open>time ?? 0\<close> and the display width are finite and not 0.
\<close>

theorem toViewCoordinates_unguarded:
  "toViewCoordinates options time plan
     = jsmul (jsdiv (nullish time (Fin 0)) (makespan plan)) (displayWidth options) \<and>
   (makespan plan = Fin 0 \<longrightarrow> \<not> isFinite (toViewCoordinates options time plan)) \<and>
   (makespan plan = Fin 0 \<and> nullish time (Fin 0) = Fin 0 \<longrightarrow>
      toViewCoordinates options time plan = NaN) \<and>
   (\<forall>t w. makespan plan = Fin 0 \<and> nullish time (Fin 0) = Fin t \<and> t \<noteq> 0
        \<and> displayWidth options = Fin w \<and> w \<noteq> 0 \<longrightarrow>
      toViewCoordinates options time plan = PInf
      \<or> toViewCoordinates options time plan = NInf)"
  by (auto simp: toViewCoordinates_def jsdiv_zero_not_finite jsmul_not_finite)

theorem toViewCoordinates_unguarded_witness:
  "\<not> isFinite (toViewCoordinates demoOptions (Some (Fin 2)) (examplePlan [] None (Fin 0)))
   \<and> toViewCoordinates demoOptions None (examplePlan [] None (Fin 0)) = NaN
   \<and> toViewCoordinates demoOptions (Some (Fin 2)) (examplePlan [] None (Fin 0)) = PInf"
  using
    toViewCoordinates_unguarded [of demoOptions "Some (Fin 2)" "examplePlan [] None (Fin 0)"]
    toViewCoordinates_unguarded [of demoOptions None "examplePlan [] None (Fin 0)"]
  by (simp add: ex_defs)

text \<open>With a makespan of 0, time 0 maps to \<open>NaN\<close>, which is not 0, and the images of
  the times 0 and 1 are not ordered; with a negative display width the images of 0 and 1
  are in decreasing order.\<close>

theorem toViewCoordinates_monotone_counterexample:
  "\<not> jseq (toViewCoordinates demoOptions (Some (Fin 0)) (examplePlan [] None (Fin 0))) (Fin 0)
   \<and> jsle (Fin 0) (Fin 1)
   \<and> \<not> jsle (toViewCoordinates demoOptions (Some (Fin 0)) (examplePlan [] None (Fin 0)))
           (toViewCoordinates demoOptions (Some (Fin 1)) (examplePlan [] None (Fin 0)))
   \<and> \<not> jsle (toViewCoordinates (demoOptions\<lparr>displayWidth := Fin (- 300)\<rparr>) (Some (Fin 0)) (examplePlan [] None (Fin 10)))
           (toViewCoordinates (demoOptions\<lparr>displayWidth := Fin (- 300)\<rparr>) (Some (Fin 1)) (examplePlan [] None (Fin 10)))"
  by (simp add: ex_defs toViewCoordinates_def jsle_def)

text \<open>
  C8 (amended). For every plan and options whose makespan and display width are finite,
  not 0 and of the same sign (both positive, for instance), \<open>toViewCoordinates\<close> is
  monotonically non-decreasing over finite times (an undefined time counting as 0), and
  maps time 0 to 0.
\<close>

theorem toViewCoordinates_monotone:
  assumes "makespan plan = Fin m" and "displayWidth options = Fin w" and "0 < m * w"
    and "nullish t1 (Fin 0) = Fin a" and "nullish t2 (Fin 0) = Fin b" and "a \<le> b"
  shows "jsle (toViewCoordinates options t1 plan) (toViewCoordinates options t2 plan)
     \<and> toViewCoordinates options (Some (Fin 0)) plan = Fin 0"
proof -
  have m: "m \<noteq> 0" and ratio: "0 \<le> w / m"
    using assms(3) by (auto simp: zero_less_mult_iff zero_le_divide_iff)
  have "a / m * w = a * (w / m)" "b / m * w = b * (w / m)"
    by simp_all
  moreover have "a * (w / m) \<le> b * (w / m)"
    using ratio assms(6) by (rule mult_right_mono[rotated])
  ultimately have "a / m * w \<le> b / m * w" by simp
  then show ?thesis
    using assms m by (simp add: toViewCoordinates_def)
qed

theorem toViewCoordinates_monotone_witness:
  "jsle (toViewCoordinates demoOptions None (examplePlan [] None (Fin 8)))
        (toViewCoordinates demoOptions (Some (Fin 2)) (examplePlan [] None (Fin 8)))
   \<and> toViewCoordinates demoOptions (Some (Fin 2)) (examplePlan [] None (Fin 8)) = Fin 75
   \<and> toViewCoordinates demoOptions (Some (Fin 0)) (examplePlan [] None (Fin 8)) = Fin 0"
  using toViewCoordinates_monotone [of "examplePlan [] None (Fin 8)" 8 demoOptions 300
      None 0 "Some (Fin 2)" 2]
  by (simp add: ex_defs toViewCoordinates_def)

section \<open>The width of the committed bar\<close>

text \<open>A committed duration of 0 in a plan of makespan 0: the width is
  \<open>Math.max(1, NaN)\<close>, which is \<open>NaN\<close> and not at least 1.\<close>

theorem computeWidth_counterexample:
  "computeWidth demoOptions (Fin 0) (examplePlan [] None (Fin 0)) = NaN
   \<and> \<not> jsge (computeWidth demoOptions (Fin 0) (examplePlan [] None (Fin 0))) (Fin 1)"
  by (simp add: ex_defs computeWidth_def toViewCoordinates_def jsge_def jsle_def)

text \<open>
  C6 (amended). \<open>computeWidth\<close> is \<open>Math.max(1, toViewCoordinates(planHeadDuration, plan))\<close>;
  it is at least 1 whenever that coordinate is not \<open>NaN\<close>, in particular for every
  finite committed duration when the display width and the makespan are finite and
  not 0.
\<close>

theorem computeWidth_at_least_one:
  "computeWidth options planHeadDuration plan
     = jsmax (Fin 1) (toViewCoordinates options (Some planHeadDuration) plan) \<and>
   (toViewCoordinates options (Some planHeadDuration) plan \<noteq> NaN \<longrightarrow>
      jsge (computeWidth options planHeadDuration plan) (Fin 1)) \<and>
   (isFinite planHeadDuration
      \<and> isFinite (displayWidth options) \<and> displayWidth options \<noteq> Fin 0
      \<and> isFinite (makespan plan) \<and> makespan plan \<noteq> Fin 0 \<longrightarrow>
      jsge (computeWidth options planHeadDuration plan) (Fin 1))"
proof -
  have "toViewCoordinates options (Some planHeadDuration) plan \<noteq> NaN"
    if "isFinite planHeadDuration" "isFinite (displayWidth options)"
      "isFinite (makespan plan)" "makespan plan \<noteq> Fin 0"
    using that by (auto simp: toViewCoordinates_def isFinite_iff)
  then show ?thesis
    by (auto simp: computeWidth_def jsmax_one_ge)
qed

theorem computeWidth_at_least_one_witness:
  "computeWidth demoOptions (Fin 0) (examplePlan [] None (Fin 10)) = Fin 1
   \<and> jsge (computeWidth demoOptions (Fin 0) (examplePlan [] None (Fin 10))) (Fin 1)
   \<and> jsge (computeWidth demoOptions (Fin 2) (examplePlan [] None (Fin 10))) (Fin 1)"
  using computeWidth_at_least_one [of demoOptions "Fin 0" "examplePlan [] None (Fin 10)"]
    computeWidth_at_least_one [of demoOptions "Fin 2" "examplePlan [] None (Fin 10)"]
  by (simp add: ex_defs toViewCoordinates_def)

section \<open>Plan-head classification\<close>

text \<open>
  C4. \<open>isPlanHeadStep(step, now)\<close> holds if and only if \<open>now\<close> is undefined or the
  commitment of the step is \<open>Committed\<close> or \<open>EndsInRelaxedPlan\<close>; in particular every
  step is in the plan head when \<open>now\<close> is undefined.
\<close>

theorem isPlanHeadStep_iff:
  "isPlanHeadStep step timeNow =
     (timeNow = None \<or> commitment step = Committed \<or> commitment step = EndsInRelaxedPlan)
   \<and> isPlanHeadStep step None"
  by (simp add: isPlanHeadStep_def)

text \<open>
  C10. The classification depends on the commitment and on \<open>now\<close> only: two steps of the
  same commitment are classified alike, whatever their times, durations and other
  fields; so a step that starts in the relaxed plan is relaxed even when it lies
  entirely in the past.
\<close>

theorem isPlanHeadStep_commitment_only:
  "(commitment s1 = commitment s2 \<longrightarrow>
      isPlanHeadStep s1 timeNow = isPlanHeadStep s2 timeNow) \<and>
   (commitment s1 = StartsInRelaxedPlan \<and> timeNow = Some n \<and> jslt (getEndTime s1) n \<longrightarrow>
      \<not> isPlanHeadStep s1 timeNow)"
  by (simp add: isPlanHeadStep_def)

theorem isPlanHeadStep_commitment_only_witness:
  "commitment (exampleStep (Some (Fin 1)) (Some (Fin 2)) (Fin 3) StartsInRelaxedPlan)
     = commitment (exampleStep (Some (Fin 7)) None (Fin 7) StartsInRelaxedPlan)
   \<and> isPlanHeadStep (exampleStep (Some (Fin 1)) (Some (Fin 2)) (Fin 3) StartsInRelaxedPlan)
        (Some (Fin 5))
     = isPlanHeadStep (exampleStep (Some (Fin 7)) None (Fin 7) StartsInRelaxedPlan)
        (Some (Fin 5))
   \<and> jslt (getEndTime (exampleStep (Some (Fin 1)) (Some (Fin 2)) (Fin 3) StartsInRelaxedPlan))
        (Fin 5)
   \<and> \<not> isPlanHeadStep (exampleStep (Some (Fin 1)) (Some (Fin 2)) (Fin 3) StartsInRelaxedPlan)
        (Some (Fin 5))"
  using isPlanHeadStep_commitment_only [of
      "exampleStep (Some (Fin 1)) (Some (Fin 2)) (Fin 3) StartsInRelaxedPlan"
      "exampleStep (Some (Fin 7)) None (Fin 7) StartsInRelaxedPlan" "Some (Fin 5)" "Fin 5"]
  by (auto simp add: ex_defs)

section \<open>The colour of the bar\<close>

lemma length_colors: "length colors = 24"
  by (simp add: colors_def)

lemma findIndexFrom_none: "\<forall>x \<in> set xs. \<not> p x \<Longrightarrow> findIndexFrom p k xs = - 1"
  by (induction xs arbitrary: k) simp_all

lemma findIndexFrom_first:
  "i < length xs \<Longrightarrow> p (xs ! i) \<Longrightarrow> \<forall>j < i. \<not> p (xs ! j) \<Longrightarrow>
   findIndexFrom p k xs = k + int i"
proof (induction xs arbitrary: k i)
  case Nil
  then show ?case by simp
next
  case (Cons x xs)
  show ?case
  proof (cases i)
    case 0
    with Cons.prems show ?thesis by simp
  next
    case (Suc i')
    with Cons.prems have "\<not> p x" by auto
    moreover have "findIndexFrom p (k + 1) xs = k + 1 + int i'"
      using Cons.prems Suc by (intro Cons.IH) auto
    ultimately show ?thesis using Suc by simp
  qed
qed

lemma toLowerCase_examples:
  "toLowerCase ''load'' = ''load''" "toLowerCase ''Move'' = ''move''"
  "toLowerCase ''MOVE'' = ''move''" "toLowerCase ''move'' = ''move''"
  "toLowerCase ''drop'' = ''drop''"
  by code_simp+

lemma actionColor_cases:
  "(domain plan = None \<longrightarrow> actionColor step plan = ''gray'') \<and>
   (\<forall>d. domain plan = Some d
        \<and> (\<forall>a \<in> set (getActions d).
              toLowerCase (getNameOrEmpty a) \<noteq> toLowerCase (getActionName step)) \<longrightarrow>
      actionColor step plan = ''gray'') \<and>
   (\<forall>d i. domain plan = Some d \<and> i < length (getActions d)
        \<and> toLowerCase (getNameOrEmpty (getActions d ! i)) = toLowerCase (getActionName step)
        \<and> (\<forall>j < i. toLowerCase (getNameOrEmpty (getActions d ! j))
                      \<noteq> toLowerCase (getActionName step)) \<longrightarrow>
      actionColor step plan = colors ! ((i * 7) mod 24))"
proof -
  let ?p = "\<lambda>action. toLowerCase (getNameOrEmpty action) = toLowerCase (getActionName step)"
  have none: "actionColor step plan = ''gray''"
    if "domain plan = Some d" "\<forall>a \<in> set (getActions d). \<not> ?p a" for d
    using that findIndexFrom_none [of "getActions d" ?p 0]
    by (simp add: actionColor_def getActionColor_def findIndex_def)
  have some: "actionColor step plan = colors ! ((i * 7) mod 24)"
    if "domain plan = Some d" "i < length (getActions d)" "?p (getActions d ! i)"
      "\<forall>j < i. \<not> ?p (getActions d ! j)" for d i
  proof -
    have "findIndex ?p (getActions d) = int i"
      using findIndexFrom_first [of i "getActions d" ?p 0] that by (simp add: findIndex_def)
    moreover have "nat (int i * 7 mod 24) = (i * 7) mod 24"
      by (simp add: nat_mod_distrib nat_mult_distrib)
    ultimately show ?thesis
      using that(1) by (simp add: actionColor_def getActionColor_def length_colors)
  qed
  show ?thesis
    using none some by (auto simp: actionColor_def)
qed

lemma renderedBarColor_actionColor:
  "renderedBarColor options step index plan = Some [Lit (actionColor step plan)]"
  by (simp add: renderedBarColor_def renderGanttStep_def Let_def createElement_def
      appendChild_def)

lemma renderGanttStep_Element:
  "renderGanttStep options (Element tag cls props sty cs) step index plan
     = Element tag cls props sty
         (cs @ childNodes (renderGanttStep options (createElement ''div'') step index plan))"
  by (simp add: renderGanttStep_def Let_def createElement_def appendChild_def)

text \<open>
  C9. \<open>renderGanttStep\<close> appends to the gantt element one \<open>planstep\<close> element, whose first
  child is the bar, and the \<open>backgroundColor\<close> of the bar is \<open>gray\<close> when the plan has no
  domain; otherwise, with \<open>i\<close> the position of the first action of the domain whose name
  equals the step's action name after \<open>toLowerCase\<close> on both, it is \<open>gray\<close> when there
  is no such action and entry \<open>(i * 7) mod 24\<close> of the palette of 24 colours when there
  is.
\<close>

theorem renderGanttStep_bar_color:
  "renderGanttStep options (Element tag cls props sty cs) step index plan
     = Element tag cls props sty
         (cs @ childNodes (renderGanttStep options (createElement ''div'') step index plan)) \<and>
   (domain plan = None \<longrightarrow>
      renderedBarColor options step index plan = Some [Lit ''gray'']) \<and>
   (\<forall>d. domain plan = Some d
        \<and> (\<forall>a \<in> set (getActions d).
              toLowerCase (getNameOrEmpty a) \<noteq> toLowerCase (getActionName step)) \<longrightarrow>
      renderedBarColor options step index plan = Some [Lit ''gray'']) \<and>
   (\<forall>d i. domain plan = Some d \<and> i < length (getActions d)
        \<and> toLowerCase (getNameOrEmpty (getActions d ! i)) = toLowerCase (getActionName step)
        \<and> (\<forall>j < i. toLowerCase (getNameOrEmpty (getActions d ! j))
                      \<noteq> toLowerCase (getActionName step)) \<longrightarrow>
      renderedBarColor options step index plan = Some [Lit (colors ! ((i * 7) mod 24))]
      \<and> (i * 7) mod 24 < length colors) \<and>
   length colors = 24"
proof -
  have "(i * 7) mod 24 < length colors" for i :: nat
    by (simp add: length_colors)
  then show ?thesis
    using actionColor_cases [of plan step]
    by (auto simp: renderedBarColor_actionColor renderGanttStep_Element length_colors)
qed

text \<open>A plan without a domain, a domain without the action, and a domain where the
  action \<open>move\<close> is declared second, as \<open>Move\<close>: the bar is \<open>gray\<close>, \<open>gray\<close>, and entry 7
  of the palette.\<close>

theorem renderGanttStep_bar_color_witness:
  "renderedBarColor demoOptions (exampleStep (Some (Fin 2)) (Some (Fin 6)) (Fin 8) Committed) 0
      (examplePlan [] None (Fin 10)) = Some [Lit ''gray'']
   \<and> renderedBarColor demoOptions (exampleStep (Some (Fin 2)) (Some (Fin 6)) (Fin 8) Committed) 0
      ((examplePlan [] None (Fin 10))\<lparr>domain := Some (exampleDomain [''load'', ''drop''])\<rparr>)
      = Some [Lit ''gray'']
   \<and> renderedBarColor demoOptions (exampleStep (Some (Fin 2)) (Some (Fin 6)) (Fin 8) Committed) 0
      ((examplePlan [] None (Fin 10))
         \<lparr>domain := Some (exampleDomain [''load'', ''Move'', ''MOVE''])\<rparr>)
      = Some [Lit ''#40ff00'']"
  using
    renderGanttStep_bar_color [of demoOptions _ _ _ _ _
      "exampleStep (Some (Fin 2)) (Some (Fin 6)) (Fin 8) Committed" 0
      "examplePlan [] None (Fin 10)"]
    renderGanttStep_bar_color [of demoOptions _ _ _ _ _
      "exampleStep (Some (Fin 2)) (Some (Fin 6)) (Fin 8) Committed" 0
      "(examplePlan [] None (Fin 10))\<lparr>domain := Some (exampleDomain [''load'', ''drop''])\<rparr>"]
    renderGanttStep_bar_color [of demoOptions _ _ _ _ _
      "exampleStep (Some (Fin 2)) (Some (Fin 6)) (Fin 8) Committed" 0
      "(examplePlan [] None (Fin 10))
         \<lparr>domain := Some (exampleDomain [''load'', ''Move'', ''MOVE''])\<rparr>",
      THEN conjunct2, THEN conjunct2, THEN conjunct2, THEN conjunct1, rule_format,
      of "exampleDomain [''load'', ''Move'', ''MOVE'']" 1]
  by (simp add: ex_defs toLowerCase_examples colors_def less_Suc_eq)

section \<open>Rendering only appends\<close>

lemma appendNodes_Nil: "appendNodes g [] = g"
  by (cases g) simp_all

lemma appendNodes_appendNodes: "appendNodes (appendNodes g xs) ys = appendNodes g (xs @ ys)"
  by (cases g) simp_all

lemma renderGanttStep_appends:
  "\<exists>n. \<forall>g. renderGanttStep options g step index plan = appendNodes g [n]"
  unfolding renderGanttStep_def Let_def appendChild_def by blast

lemma renderGanttSteps_appends:
  "\<exists>ns. \<forall>g. renderGanttSteps options g ss index plan = appendNodes g ns"
proof (induction ss arbitrary: index)
  case Nil
  have "\<forall>g. renderGanttSteps options g [] index plan = appendNodes g []"
    by (simp add: appendNodes_Nil)
  then show ?case ..
next
  case (Cons s ss)
  obtain n where n: "\<And>g. renderGanttStep options g s index plan = appendNodes g [n]"
    using renderGanttStep_appends by blast
  obtain ns where ns: "\<And>g. renderGanttSteps options g ss (Suc index) plan = appendNodes g ns"
    using Cons.IH by blast
  have "\<forall>g. renderGanttSteps options g (s # ss) index plan = appendNodes g ([n] @ ns)"
    by (simp add: n ns appendNodes_appendNodes)
  then show ?case ..
qed

lemma renderHelpfulAction_appends:
  "\<exists>ns. \<forall>g. renderHelpfulAction g index h = appendNodes g ns"
proof -
  have "\<exists>a b. \<forall>g. renderHelpfulAction g index h = appendNodes g ([a] @ [b])"
    unfolding renderHelpfulAction_def Let_def appendChild_def appendNodes_appendNodes by blast
  then show ?thesis by blast
qed

lemma renderEachHelpfulAction_appends:
  "\<exists>ns. \<forall>g. renderEachHelpfulAction g index hs = appendNodes g ns"
proof (induction hs arbitrary: index)
  case Nil
  have "\<forall>g. renderEachHelpfulAction g index [] = appendNodes g []"
    by (simp add: appendNodes_Nil)
  then show ?case ..
next
  case (Cons h hs)
  obtain xs where xs: "\<And>g. renderHelpfulAction g index h = appendNodes g xs"
    using renderHelpfulAction_appends by blast
  obtain ys where ys: "\<And>g. renderEachHelpfulAction g (Suc index) hs = appendNodes g ys"
    using Cons.IH by blast
  have "\<forall>g. renderEachHelpfulAction g index (h # hs) = appendNodes g (xs @ ys)"
    by (simp add: xs ys appendNodes_appendNodes)
  then show ?case ..
qed

lemma renderHelpfulActions_appends:
  "\<exists>ns. \<forall>g. renderHelpfulActions options g plan k = appendNodes g ns"
proof (cases "hasHelpfulActions plan")
  case False
  then have "\<forall>g. renderHelpfulActions options g plan k = appendNodes g []"
    by (simp add: renderHelpfulActions_def appendNodes_Nil)
  then show ?thesis ..
next
  case True
  then obtain hs where hs: "helpfulActions plan = Some hs"
    by (auto simp: hasHelpfulActions_def split: option.splits)
  obtain xs where xs: "\<And>g. renderEachHelpfulAction g 0 hs = appendNodes g xs"
    using renderEachHelpfulAction_appends by blast
  have "\<exists>d. \<forall>g. renderHelpfulActions options g plan k = appendNodes g (xs @ [d])"
    unfolding renderHelpfulActions_def Let_def appendChild_def
    using True by (simp add: hs xs appendNodes_appendNodes) blast
  then show ?thesis by blast
qed

lemma showGantt_appends:
  "\<exists>ns. \<forall>g. showGantt options g plan ss planIndex
     = appendNodes
         (setStyle ''height''
            (px (jsmul (Fin (real (length ss + (if hasHelpfulActions plan then 1 else 0))))
                   planStepHeight))
            (setProperty ''plan'' [NumberToString planIndex] g))
         ns"
proof -
  let ?head = "filter (\<lambda>step. isPlanHeadStep step (now plan)) ss"
  let ?relaxed = "filter (\<lambda>step. \<not> isPlanHeadStep step (now plan)) ss"
  let ?one = "if hasHelpfulActions plan then 1 else (0::nat)"
  obtain xs where xs: "\<And>g. renderGanttSteps options g ?head 0 plan = appendNodes g xs"
    using renderGanttSteps_appends by blast
  obtain ys where ys: "\<And>g. renderHelpfulActions options g plan (length ?head) = appendNodes g ys"
    using renderHelpfulActions_appends by blast
  obtain zs where zs:
    "\<And>g. renderGanttSteps options g ?relaxed (length ?head + ?one) plan = appendNodes g zs"
    using renderGanttSteps_appends by blast
  have "\<forall>g. showGantt options g plan ss planIndex
     = appendNodes
         (setStyle ''height''
            (px (jsmul (Fin (real (length ss + ?one))) planStepHeight))
            (setProperty ''plan'' [NumberToString planIndex] g))
         (xs @ ys @ zs)"
    by (simp add: showGantt_def Let_def xs ys zs appendNodes_appendNodes)
  then show ?thesis ..
qed

lemma showGantt_Element:
  "showGantt options (Element tag cls props sty cs) plan ss planIndex
     = Element tag cls
         (AList.update ''plan'' [NumberToString planIndex] props)
         (AList.update ''height''
            (px (jsmul (Fin (real (length ss + (if hasHelpfulActions plan then 1 else 0))))
                   planStepHeight)) sty)
         (cs @ renderedNodes options plan ss planIndex)"
proof -
  obtain ns where ns: "\<And>g. showGantt options g plan ss planIndex
     = appendNodes
         (setStyle ''height''
            (px (jsmul (Fin (real (length ss + (if hasHelpfulActions plan then 1 else 0))))
                   planStepHeight))
            (setProperty ''plan'' [NumberToString planIndex] g))
         ns"
    using showGantt_appends by blast
  have "renderedNodes options plan ss planIndex = ns"
    by (simp add: renderedNodes_def createElement_def ns)
  then show ?thesis by (simp add: ns)
qed

section \<open>Finding and changing the gantt element\<close>

lemma querySelector_Some:
  "querySelector c ns = Some n \<Longrightarrow>
   \<exists>tag cls props sty cs. n = Element tag cls props sty cs \<and> c \<in> set cls"
  by (induction c ns rule: querySelector.induct) (auto split: if_splits option.splits)

lemma querySelector_updateSelected:
  assumes "\<And>n. classList (f n) = classList n"
  shows "querySelector c (updateSelected c f ns) = map_option f (querySelector c ns)"
proof (induction c ns rule: querySelector.induct)
  case (1 c)
  show ?case by simp
next
  case (2 c t ns)
  then show ?case by simp
next
  case (3 c tag cls props sty cs ns)
  show ?case
  proof (cases "c \<in> set cls")
    case True
    with assms [of "Element tag cls props sty cs"] show ?thesis
      by (cases "f (Element tag cls props sty cs)") auto
  next
    case False
    with 3 show ?thesis by (auto split: option.splits)
  qed
qed

lemma querySelector_append:
  "querySelector c ns = None \<Longrightarrow> querySelector c (ns @ ms) = querySelector c ms"
  by (induction c ns rule: querySelector.induct) (auto split: if_splits option.splits)

lemma length_updateSelected: "length (updateSelected c f ns) = length ns"
  by (induction c f ns rule: updateSelected.induct) simp_all

lemma classList_showGantt:
  "classList (showGantt options g plan ss planIndex) = classList g"
proof (cases g)
  case (TextNode t)
  obtain ns where "\<And>g. showGantt options g plan ss planIndex
     = appendNodes
         (setStyle ''height''
            (px (jsmul (Fin (real (length ss + (if hasHelpfulActions plan then 1 else 0))))
                   planStepHeight))
            (setProperty ''plan'' [NumberToString planIndex] g))
         ns"
    using showGantt_appends by blast
  with TextNode show ?thesis by simp
next
  case (Element tag cls props sty cs)
  then show ?thesis by (simp add: showGantt_Element)
qed

section \<open>Showing a plan twice\<close>

text \<open>An empty host and a plan of one step: after one call the gantt element has one
  child, after the second call with the same arguments it has two, and the host is not
  what it was after the first call.\<close>

theorem showPlan_twice_counterexample:
  "map (length \<circ> childNodes) (showPlan demoOptions id []
      (examplePlan [exampleStep (Some (Fin 2)) (Some (Fin 6)) (Fin 8) StartsInRelaxedPlan]
         (Some (Fin 5)) (Fin 10)) (Fin 0) None) = [1]
   \<and> map (length \<circ> childNodes) (showPlan demoOptions id
      (showPlan demoOptions id []
        (examplePlan [exampleStep (Some (Fin 2)) (Some (Fin 6)) (Fin 8) StartsInRelaxedPlan]
           (Some (Fin 5)) (Fin 10)) (Fin 0) None)
      (examplePlan [exampleStep (Some (Fin 2)) (Some (Fin 6)) (Fin 8) StartsInRelaxedPlan]
         (Some (Fin 5)) (Fin 10)) (Fin 0) None) = [2]
   \<and> showPlan demoOptions id
      (showPlan demoOptions id []
        (examplePlan [exampleStep (Some (Fin 2)) (Some (Fin 6)) (Fin 8) StartsInRelaxedPlan]
           (Some (Fin 5)) (Fin 10)) (Fin 0) None)
      (examplePlan [exampleStep (Some (Fin 2)) (Some (Fin 6)) (Fin 8) StartsInRelaxedPlan]
         (Some (Fin 5)) (Fin 10)) (Fin 0) None
     \<noteq> showPlan demoOptions id []
        (examplePlan [exampleStep (Some (Fin 2)) (Some (Fin 6)) (Fin 8) StartsInRelaxedPlan]
           (Some (Fin 5)) (Fin 10)) (Fin 0) None"
  by (simp add: ex_defs showPlan_def createSubElement_def createElement_def shouldDisplay_def
      showGantt_def isPlanHeadStep_def hasHelpfulActions_def renderHelpfulActions_def
      renderGanttStep_def appendChild_def Let_def)

text \<open>
  C5 (amended). For every plan, plan index, settings and host, after \<open>showPlan\<close> the
  first element of class \<open>gantt\<close> under the host ends with the rendered step and
  helpful-action nodes; a second call with the same arguments finds that same element,
  with the same tag, classes, attributes and style, creates no further child of the
  host, and appends the rendered nodes once more after those of the first call. Nothing
  is cleared.
\<close>

theorem showPlan_twice:
  "\<exists>tag cls props sty before.
      querySelector ''gantt'' (showPlan options capitalize host plan planIndex settings)
        = Some (Element tag cls props sty
            (before @ renderedNodes options (capitalize plan)
               (filter (\<lambda>step. shouldDisplay step settings) (steps (capitalize plan)))
               planIndex))
    \<and> querySelector ''gantt''
        (showPlan options capitalize
           (showPlan options capitalize host plan planIndex settings) plan planIndex settings)
        = Some (Element tag cls props sty
            (before @ renderedNodes options (capitalize plan)
               (filter (\<lambda>step. shouldDisplay step settings) (steps (capitalize plan)))
               planIndex
             @ renderedNodes options (capitalize plan)
               (filter (\<lambda>step. shouldDisplay step settings) (steps (capitalize plan)))
               planIndex))
    \<and> length (showPlan options capitalize
           (showPlan options capitalize host plan planIndex settings) plan planIndex settings)
        = length (showPlan options capitalize host plan planIndex settings)"
proof -
  let ?plan = "capitalize plan"
  let ?ss = "filter (\<lambda>step. shouldDisplay step settings) (steps ?plan)"
  let ?f = "\<lambda>g. showGantt options g ?plan ?ss planIndex"
  let ?R = "renderedNodes options ?plan ?ss planIndex"
  let ?once = "showPlan options capitalize host plan planIndex settings"
  let ?twice = "showPlan options capitalize ?once plan planIndex settings"
  have cls: "\<And>n. classList (?f n) = classList n"
    by (rule classList_showGantt)
  have "\<exists>g0. querySelector ''gantt'' ?once = Some (?f g0) \<and> ''gantt'' \<in> set (classList g0)
        \<and> (\<exists>tag cls props sty cs. g0 = Element tag cls props sty cs)"
  proof (cases "querySelector ''gantt'' host")
    case None
    let ?new = "Element ''div'' [''gantt''] [] [] []"
    have "?once = host @ [?f ?new]"
      by (simp add: showPlan_def Let_def None createSubElement_def createElement_def)
    moreover have "querySelector ''gantt'' [?f ?new] = Some (?f ?new)"
      by (simp add: showGantt_Element)
    ultimately have "querySelector ''gantt'' ?once = Some (?f ?new)"
      using None by (simp add: querySelector_append)
    then show ?thesis by auto
  next
    case (Some g0)
    then have "?once = updateSelected ''gantt'' ?f host"
      by (simp add: showPlan_def Let_def)
    then have "querySelector ''gantt'' ?once = Some (?f g0)"
      using querySelector_updateSelected [of ?f "''gantt''" host, OF cls] Some by simp
    moreover from querySelector_Some [OF Some]
    have "''gantt'' \<in> set (classList g0) \<and> (\<exists>tag cls props sty cs. g0 = Element tag cls props sty cs)"
      by auto
    ultimately show ?thesis by blast
  qed
  then obtain tag cls props sty cs where
    once: "querySelector ''gantt'' ?once = Some (?f (Element tag cls props sty cs))"
    by blast
  then have twice_eq: "?twice = updateSelected ''gantt'' ?f ?once"
    by (simp add: showPlan_def [of options capitalize ?once] Let_def)
  then have twice: "querySelector ''gantt'' ?twice = Some (?f (?f (Element tag cls props sty cs)))"
    using querySelector_updateSelected [of ?f "''gantt''" ?once, OF cls] once by simp
  have len: "length ?twice = length ?once"
    using twice_eq by (simp add: length_updateSelected)
  show ?thesis
    using once twice len by (simp add: showGantt_Element)
qed

end
